theory Spec2Isabelle
  imports Main "HOL-Library.Sublist"
begin

section \<open>Input symbols and guard functions\<close>

text \<open>
  The scanner reads bytes with \<open>file.get()\<close> and hands each one to the automaton as a C++
  \<open>char\<close>. A byte is a HOL \<^typ>\<open>char\<close>. Where the source compares a \<open>char\<close> with an \<open>int\<close>
  the \<open>char\<close> is promoted; \<open>char_val\<close> is that promotion for a signed \<open>char\<close>. Every comparand
  used by the automaton is an ASCII literal or the default \<open>-129\<close>, which no byte equals.
\<close>

definition char_val :: "char \<Rightarrow> int" where
  "char_val c = (if (of_char c :: int) < 128 then of_char c else of_char c - 256)"

type_synonym charComparator = "char \<Rightarrow> int \<Rightarrow> bool"

definition everything :: charComparator where
  "everything c a = True"

definition digits :: charComparator where
  "digits c a = (char_val c \<ge> char_val CHR ''0'' \<and> char_val c \<le> char_val CHR ''9'')"

definition justChar :: charComparator where
  "justChar c against = (char_val c = against)"

definition whitespace :: charComparator where
  "whitespace c a = (c = CHR '' '' \<or> c = CHR 0x09 \<or> c = CHR 0x0D \<or> c = CHR 0x0A)"

definition delimiters :: charComparator where
  "delimiters c a = (c = CHR '' '' \<or> c = CHR 0x22)"

section \<open>Global program state and edge actions\<close>

record globals =
  spamMessages :: "int list"
  currentMessageNum :: int

type_synonym charConsumer = "char \<Rightarrow> globals \<Rightarrow> globals"

definition newMsg :: charConsumer where
  "newMsg c g = g\<lparr>currentMessageNum := 0\<rparr>"

definition handleMIDdig :: charConsumer where
  "handleMIDdig c g =
     (let digit = char_val c - char_val CHR ''0'' in
      g\<lparr>currentMessageNum := currentMessageNum g * 10 + digit\<rparr>)"

definition recordSpam :: charConsumer where
  "recordSpam c g = g\<lparr>spamMessages := spamMessages g @ [currentMessageNum g]\<rparr>"

section \<open>States and transition records\<close>

text \<open>
  A value of \<open>state\<close> is the address of one of the \<open>DFAstate\<close> objects declared in \<open>main\<close>;
  an array element \<open>openDoc[i]\<close> is \<open>openDoc i\<close>. A \<open>DFAstate*\<close> that may be \<open>NULL\<close> is a
  \<open>state option\<close>.
\<close>

datatype state =
    start
  | openDoc nat
  | openDocID nat
  | msg nat
  | msgdig nat
  | closeDocID nat
  | subject
  | notdelimited
  | delimited
  | free_stuff nat
  | free_access nat
  | free_software nat
  | free_vacation nat
  | free_trials nat
  | win nat
  | winners nat
  | winnings nat
  | isSpam
  | closeDoc nat
  | closeDocSpam nat

record transitionRecord =
  onSymbols :: charComparator
  to :: state
  doing :: "charConsumer option"
  comparedTo :: int

type_synonym automaton = "state \<Rightarrow> transitionRecord list"

definition addTransition ::
  "state \<Rightarrow> charComparator \<Rightarrow> state \<Rightarrow> charConsumer option \<Rightarrow> int \<Rightarrow> automaton \<Rightarrow> automaton" where
  "addTransition s which wher does what A =
     A(s := A s @ [\<lparr>onSymbols = which, to = wher, doing = does, comparedTo = what\<rparr>])"

text \<open>The loop of \<open>transitionWithChar\<close> over the vector of transition records.\<close>

fun take_first :: "transitionRecord list \<Rightarrow> char \<Rightarrow> globals \<Rightarrow> state option \<times> globals" where
  "take_first [] c g = (None, g)"
| "take_first (i # rest) c g =
     (if onSymbols i c (comparedTo i)
      then (Some (to i), (case doing i of None \<Rightarrow> g | Some f \<Rightarrow> f c g))
      else take_first rest c g)"

definition transitionWithChar ::
  "automaton \<Rightarrow> state \<Rightarrow> char \<Rightarrow> globals \<Rightarrow> state option \<times> globals" where
  "transitionWithChar A s c g =
     (if A s = [] then (None, g) else take_first (A s) c g)"

section \<open>The automaton built in main\<close>

text \<open>
  \<open>main\<close> builds the automaton by a fixed sequence of \<open>addTransition\<close> calls. A call is
  recorded as the state it is made on and its four arguments; \<open>does\<close> defaults to \<open>NULL\<close>
  and \<open>what\<close> to \<open>-129\<close>. \<open>main_calls\<close> lists the calls in source order, the three pairs of
  \<open>for\<close> loops over \<open>free_software\<close>, \<open>free_trials\<close> and \<open>free_vacation\<close> included.
\<close>

type_synonym call = "state \<times> charComparator \<times> state \<times> charConsumer option \<times> int"

fun exec :: "call \<Rightarrow> automaton \<Rightarrow> automaton" where
  "exec (s, which, wher, does, what) A = addTransition s which wher does what A"

definition main_calls :: "call list" where
  "main_calls =
   [(start, justChar, openDoc 0, None, char_val CHR ''<''),
    (start, everything, start, None, - 129),
    (openDoc 0, justChar, openDoc 1, None, char_val CHR ''D''),
    (openDoc 0, everything, start, None, - 129),
    (openDoc 1, justChar, openDoc 2, None, char_val CHR ''O''),
    (openDoc 1, everything, start, None, - 129),
    (openDoc 2, justChar, openDoc 3, None, char_val CHR ''C''),
    (openDoc 2, everything, start, None, - 129),
    (openDoc 3, justChar, openDoc 4, Some newMsg, char_val CHR ''>''),
    (openDoc 3, everything, start, None, - 129),
    (openDoc 4, whitespace, openDoc 4, None, - 129)] @
   [(openDoc 4, justChar, openDocID 0, None, char_val CHR ''<''),
    (openDoc 4, everything, start, None, - 129),
    (openDocID 0, justChar, openDocID 1, None, char_val CHR ''D''),
    (openDocID 0, everything, start, None, - 129),
    (openDocID 1, justChar, openDocID 2, None, char_val CHR ''O''),
    (openDocID 1, everything, start, None, - 129),
    (openDocID 2, justChar, openDocID 3, None, char_val CHR ''C''),
    (openDocID 2, everything, start, None, - 129),
    (openDocID 3, justChar, openDocID 4, None, char_val CHR ''I''),
    (openDocID 3, everything, start, None, - 129),
    (openDocID 4, justChar, openDocID 5, None, char_val CHR ''D''),
    (openDocID 4, everything, start, None, - 129),
    (openDocID 5, justChar, openDocID 6, None, char_val CHR ''>''),
    (openDocID 5, everything, start, None, - 129),
    (openDocID 6, whitespace, openDocID 6, None, - 129)] @
   [(openDocID 6, justChar, msg 0, None, char_val CHR ''m''),
    (openDocID 6, everything, start, None, - 129),
    (msg 0, justChar, msg 1, None, char_val CHR ''s''),
    (msg 0, everything, start, None, - 129),
    (msg 1, justChar, msg 2, None, char_val CHR ''g''),
    (msg 1, everything, start, None, - 129)] @
   [(msg 2, digits, msgdig 0, Some handleMIDdig, - 129),
    (msg 2, everything, start, None, - 129),
    (msgdig 0, justChar, closeDocID 0, None, char_val CHR ''<''),
    (msgdig 0, whitespace, msgdig 1, None, - 129),
    (msgdig 0, digits, msgdig 1, Some handleMIDdig, - 129),
    (msgdig 0, everything, start, None, - 129),
    (msgdig 1, justChar, closeDocID 0, None, char_val CHR ''<''),
    (msgdig 1, whitespace, msgdig 1, None, - 129),
    (msgdig 1, everything, start, None, - 129),
    (closeDocID 0, justChar, closeDocID 1, None, char_val CHR ''/''),
    (closeDocID 0, everything, start, None, - 129),
    (closeDocID 1, justChar, closeDocID 2, None, char_val CHR ''D''),
    (closeDocID 1, everything, start, None, - 129),
    (closeDocID 2, justChar, closeDocID 3, None, char_val CHR ''O''),
    (closeDocID 2, everything, start, None, - 129),
    (closeDocID 3, justChar, closeDocID 4, None, char_val CHR ''C''),
    (closeDocID 3, everything, start, None, - 129),
    (closeDocID 4, justChar, closeDocID 5, None, char_val CHR ''I''),
    (closeDocID 4, everything, start, None, - 129),
    (closeDocID 5, justChar, closeDocID 6, None, char_val CHR ''D''),
    (closeDocID 5, everything, start, None, - 129),
    (closeDocID 6, justChar, closeDocID 7, None, char_val CHR ''>''),
    (closeDocID 6, everything, start, None, - 129)] @
   [(closeDocID 7, justChar, subject, None, char_val CHR 0x0A),
    (closeDocID 7, everything, closeDocID 7, None, - 129),
    (subject, justChar, delimited, None, char_val CHR 0x0A),
    (subject, whitespace, subject, None, - 129),
    (subject, everything, closeDocID 7, None, - 129)] @
   [(notdelimited, justChar, closeDoc 0, None, char_val CHR ''<''),
    (notdelimited, delimiters, delimited, None, - 129),
    (notdelimited, everything, notdelimited, None, - 129)] @
   [(delimited, justChar, free_stuff 0, None, char_val CHR ''f''),
    (delimited, justChar, win 0, None, char_val CHR ''w''),
    (delimited, justChar, closeDoc 0, None, char_val CHR ''<''),
    (delimited, delimiters, delimited, None, - 129),
    (delimited, everything, notdelimited, None, - 129)] @
   [(isSpam, justChar, closeDocSpam 0, None, char_val CHR ''<''),
    (isSpam, everything, isSpam, None, - 129)] @
   [(closeDoc 0, justChar, closeDoc 1, None, char_val CHR ''/''),
    (closeDoc 0, delimiters, delimited, None, - 129),
    (closeDoc 0, everything, notdelimited, None, - 129),
    (closeDoc 1, justChar, closeDoc 2, None, char_val CHR ''D''),
    (closeDoc 1, delimiters, delimited, None, - 129),
    (closeDoc 1, everything, notdelimited, None, - 129),
    (closeDoc 2, justChar, closeDoc 3, None, char_val CHR ''O''),
    (closeDoc 2, delimiters, delimited, None, - 129),
    (closeDoc 2, everything, notdelimited, None, - 129),
    (closeDoc 3, justChar, closeDoc 4, None, char_val CHR ''C''),
    (closeDoc 3, delimiters, delimited, None, - 129),
    (closeDoc 3, everything, notdelimited, None, - 129),
    (closeDoc 4, justChar, start, None, char_val CHR ''>''),
    (closeDoc 4, delimiters, delimited, None, - 129),
    (closeDoc 4, everything, notdelimited, None, - 129)] @
   [(closeDocSpam 0, justChar, closeDocSpam 1, None, char_val CHR ''/''),
    (closeDocSpam 0, everything, isSpam, None, - 129),
    (closeDocSpam 1, justChar, closeDocSpam 2, None, char_val CHR ''D''),
    (closeDocSpam 1, everything, isSpam, None, - 129),
    (closeDocSpam 2, justChar, closeDocSpam 3, None, char_val CHR ''O''),
    (closeDocSpam 2, everything, isSpam, None, - 129),
    (closeDocSpam 3, justChar, closeDocSpam 4, None, char_val CHR ''C''),
    (closeDocSpam 3, everything, isSpam, None, - 129),
    (closeDocSpam 4, justChar, start, None, char_val CHR ''>''),
    (closeDocSpam 4, everything, isSpam, None, - 129)] @
   [(win 0, justChar, win 1, None, char_val CHR ''i''),
    (win 0, delimiters, delimited, None, - 129),
    (win 0, everything, notdelimited, None, - 129),
    (win 1, justChar, win 2, None, char_val CHR ''n''),
    (win 1, delimiters, delimited, None, - 129),
    (win 1, everything, notdelimited, None, - 129),
    (win 2, justChar, win 3, None, char_val CHR ''n''),
    (win 2, delimiters, isSpam, Some recordSpam, - 129),
    (win 2, everything, notdelimited, None, - 129),
    (win 3, justChar, winners 0, None, char_val CHR ''e''),
    (win 3, justChar, winnings 0, None, char_val CHR ''i''),
    (win 3, delimiters, delimited, None, - 129),
    (win 3, everything, notdelimited, None, - 129)] @
   [(winners 0, justChar, winners 1, None, char_val CHR ''r''),
    (winners 0, delimiters, delimited, None, - 129),
    (winners 0, everything, notdelimited, None, - 129),
    (winners 1, justChar, winners 2, None, char_val CHR ''s''),
    (winners 1, delimiters, isSpam, Some recordSpam, - 129),
    (winners 1, everything, notdelimited, None, - 129),
    (winners 2, delimiters, isSpam, Some recordSpam, - 129),
    (winners 2, everything, notdelimited, None, - 129)] @
   [(winnings 0, justChar, winnings 1, None, char_val CHR ''n''),
    (winnings 0, delimiters, delimited, None, - 129),
    (winnings 0, everything, notdelimited, None, - 129),
    (winnings 1, justChar, winnings 2, None, char_val CHR ''g''),
    (winnings 1, delimiters, delimited, None, - 129),
    (winnings 1, everything, notdelimited, None, - 129),
    (winnings 2, justChar, winnings 3, None, char_val CHR ''s''),
    (winnings 2, delimiters, delimited, None, - 129),
    (winnings 2, everything, notdelimited, None, - 129),
    (winnings 3, delimiters, isSpam, Some recordSpam, - 129),
    (winnings 3, everything, notdelimited, None, - 129)] @
   [(free_stuff 0, justChar, free_stuff 1, None, char_val CHR ''r''),
    (free_stuff 0, delimiters, delimited, None, - 129),
    (free_stuff 0, everything, notdelimited, None, - 129),
    (free_stuff 1, justChar, free_stuff 2, None, char_val CHR ''e''),
    (free_stuff 1, delimiters, delimited, None, - 129),
    (free_stuff 1, everything, notdelimited, None, - 129),
    (free_stuff 2, justChar, free_stuff 3, None, char_val CHR ''e''),
    (free_stuff 2, delimiters, delimited, None, - 129),
    (free_stuff 2, everything, notdelimited, None, - 129),
    (free_stuff 3, justChar, free_stuff 4, None, char_val CHR '' ''),
    (free_stuff 3, justChar, delimited, None, char_val CHR 0x22),
    (free_stuff 3, everything, notdelimited, None, - 129),
    (free_stuff 4, justChar, free_stuff 0, None, char_val CHR ''f''),
    (free_stuff 4, justChar, win 0, None, char_val CHR ''w''),
    (free_stuff 4, justChar, closeDoc 0, None, char_val CHR ''<''),
    (free_stuff 4, justChar, free_access 0, None, char_val CHR ''a''),
    (free_stuff 4, justChar, free_software 0, None, char_val CHR ''s''),
    (free_stuff 4, justChar, free_trials 0, None, char_val CHR ''t''),
    (free_stuff 4, justChar, free_vacation 0, None, char_val CHR ''v''),
    (free_stuff 4, delimiters, delimited, None, - 129),
    (free_stuff 4, everything, notdelimited, None, - 129)] @
   [(free_access 0, justChar, free_access 1, None, char_val CHR ''c''),
    (free_access 0, delimiters, delimited, None, - 129),
    (free_access 0, everything, notdelimited, None, - 129),
    (free_access 1, justChar, free_access 2, None, char_val CHR ''c''),
    (free_access 1, delimiters, delimited, None, - 129),
    (free_access 1, everything, notdelimited, None, - 129),
    (free_access 2, justChar, free_access 3, None, char_val CHR ''e''),
    (free_access 2, delimiters, delimited, None, - 129),
    (free_access 2, everything, notdelimited, None, - 129),
    (free_access 3, justChar, free_access 4, None, char_val CHR ''s''),
    (free_access 3, delimiters, delimited, None, - 129),
    (free_access 3, everything, notdelimited, None, - 129),
    (free_access 4, justChar, free_access 5, None, char_val CHR ''s''),
    (free_access 4, delimiters, delimited, None, - 129),
    (free_access 4, everything, notdelimited, None, - 129),
    (free_access 5, delimiters, isSpam, Some recordSpam, - 129),
    (free_access 5, everything, notdelimited, None, - 129)] @
   [(free_software 0, justChar, free_software 1, None, char_val CHR ''o''),
    (free_software 1, justChar, free_software 2, None, char_val CHR ''f''),
    (free_software 2, justChar, free_software 3, None, char_val CHR ''t''),
    (free_software 3, justChar, free_software 4, None, char_val CHR ''w''),
    (free_software 4, justChar, free_software 5, None, char_val CHR ''a''),
    (free_software 5, justChar, free_software 6, None, char_val CHR ''r''),
    (free_software 6, justChar, free_software 7, None, char_val CHR ''e'')] @
   map (\<lambda>i. (free_software i, delimiters, delimited, None, - 129)) [0..<7] @
   [(free_software 7, delimiters, isSpam, Some recordSpam, - 129)] @
   map (\<lambda>i. (free_software i, everything, notdelimited, None, - 129)) [0..<8] @
   [(free_trials 0, justChar, free_trials 1, None, char_val CHR ''r''),
    (free_trials 1, justChar, free_trials 2, None, char_val CHR ''i''),
    (free_trials 2, justChar, free_trials 3, None, char_val CHR ''a''),
    (free_trials 3, justChar, free_trials 4, None, char_val CHR ''l''),
    (free_trials 4, justChar, free_trials 5, None, char_val CHR ''s'')] @
   map (\<lambda>i. (free_trials i, delimiters, delimited, None, - 129)) [0..<5] @
   [(free_trials 5, delimiters, isSpam, Some recordSpam, - 129)] @
   map (\<lambda>i. (free_trials i, everything, notdelimited, None, - 129)) [0..<6] @
   [(free_vacation 0, justChar, free_vacation 1, None, char_val CHR ''a''),
    (free_vacation 1, justChar, free_vacation 2, None, char_val CHR ''c''),
    (free_vacation 2, justChar, free_vacation 3, None, char_val CHR ''a''),
    (free_vacation 3, justChar, free_vacation 4, None, char_val CHR ''t''),
    (free_vacation 4, justChar, free_vacation 5, None, char_val CHR ''i''),
    (free_vacation 5, justChar, free_vacation 6, None, char_val CHR ''o''),
    (free_vacation 6, justChar, free_vacation 7, None, char_val CHR ''n'')] @
   map (\<lambda>i. (free_vacation i, delimiters, delimited, None, - 129)) [0..<7] @
   [(free_vacation 7, delimiters, isSpam, Some recordSpam, - 129)] @
   map (\<lambda>i. (free_vacation i, everything, notdelimited, None, - 129)) [0..<8]"

definition automaton :: automaton where
  "automaton = fold exec main_calls (\<lambda>s. [])"

text \<open>The printable names given to the states (\<open>iteratedname\<close> appends the index in decimal).\<close>

definition digit_char :: "nat \<Rightarrow> char" where
  "digit_char n = ''0123456789'' ! n"

fun show_nat :: "nat \<Rightarrow> string" where
  "show_nat n = (if n < 10 then [digit_char n] else show_nat (n div 10) @ [digit_char (n mod 10)])"

definition show_int :: "int \<Rightarrow> string" where
  "show_int i = (if i < 0 then CHR ''-'' # show_nat (nat (- i)) else show_nat (nat i))"

definition iteratedname :: "string \<Rightarrow> nat \<Rightarrow> string" where
  "iteratedname newname sfx = newname @ show_nat sfx"

fun name :: "state \<Rightarrow> string" where
  "name start = ''start''"
| "name subject = ''subject''"
| "name delimited = ''delimited''"
| "name notdelimited = ''not-delimited''"
| "name isSpam = ''isSpam''"
| "name (openDoc i) = iteratedname ''openDoc_'' i"
| "name (openDocID i) = iteratedname ''openDocID_'' i"
| "name (msg i) = iteratedname ''msg_'' i"
| "name (msgdig i) = iteratedname ''msgdig_'' i"
| "name (closeDocID i) = iteratedname ''closeDocID_'' i"
| "name (free_stuff i) = iteratedname ''free_stuff_'' i"
| "name (free_access i) = iteratedname ''free_access_'' i"
| "name (free_software i) = iteratedname ''free_software_'' i"
| "name (free_vacation i) = iteratedname ''free_vacation_'' i"
| "name (free_trials i) = iteratedname ''free_trials_'' i"
| "name (win i) = iteratedname ''win_'' i"
| "name (winners i) = iteratedname ''winners_'' i"
| "name (winnings i) = iteratedname ''winnings_'' i"
| "name (closeDoc i) = iteratedname ''closeDoc_'' i"
| "name (closeDocSpam i) = iteratedname ''closeDocSpam_'' i"

section \<open>The scan loop and the report\<close>

text \<open>
  The process result: exit code and the text written to the two output streams.
\<close>

record outcome =
  exit_code :: int
  cout :: string
  cerr :: string

definition endl :: string where
  "endl = [CHR 0x0A]"

text \<open>The final \<open>while\<close> loop, printing and popping the queued identifiers.\<close>

fun report :: "int list \<Rightarrow> string" where
  "report [] = []"
| "report (m # ms) = CHR '' '' # show_int m @ report ms"

text \<open>
  The \<open>do ... while\<close> loop of \<open>main\<close> followed by the report. \<open>currentstate\<close> is the
  possibly-null pointer, \<open>input\<close> the last symbol read, \<open>out\<close> the text written to \<open>cout\<close> so
  far and the list the unread rest of the file; \<open>file.get()\<close> on the empty rest is negative.
  The automaton and the state names are parameters.
\<close>

fun main_loop ::
  "automaton \<Rightarrow> (state \<Rightarrow> string) \<Rightarrow> state option \<Rightarrow> char \<Rightarrow> globals \<Rightarrow> string \<Rightarrow> char list \<Rightarrow> outcome" where
  "main_loop A nm None input g out file =
     \<lparr>exit_code = - 1, cout = out, cerr = ''Error: Unhandled symbol:'' @ [input] @ endl\<rparr>"
| "main_loop A nm (Some s) input g out [] =
     \<lparr>exit_code = 0,
      cout = out @ ''<end>'' @ endl @ ''The following messages were spam:'' @ report (spamMessages g) @ endl,
      cerr = []\<rparr>"
| "main_loop A nm (Some s) input g out (c # file) =
     (let out' = out @ [CHR 0x22] @ nm s @ [CHR 0x22] @ [CHR ''-''] @ [c] @ ''->'';
          (s', g') = transitionWithChar A s c g
      in main_loop A nm s' c g' out' file)"

text \<open>The globals are zero-initialised: no queued identifiers, identifier 0.\<close>

definition initial :: globals where
  "initial = \<lparr>spamMessages = [], currentMessageNum = 0\<rparr>"

definition main :: "char list \<Rightarrow> outcome" where
  "main file =
     main_loop automaton name (Some start) (CHR 0x00) initial [] file"

text \<open>
  The effect of the loop on \<open>currentstate\<close> and the globals alone: the symbols are consumed
  one by one until the list is exhausted or the state pointer is null.
\<close>

fun run :: "automaton \<Rightarrow> state option \<Rightarrow> globals \<Rightarrow> char list \<Rightarrow> state option \<times> globals" where
  "run A None g file = (None, g)"
| "run A (Some s) g [] = (Some s, g)"
| "run A (Some s) g (c # file) =
     (case transitionWithChar A s c g of (s', g') \<Rightarrow> run A s' g' file)"

text \<open>The states the pointer takes after each symbol (null pointers stop the walk).\<close>

fun path :: "automaton \<Rightarrow> state \<Rightarrow> globals \<Rightarrow> char list \<Rightarrow> state list" where
  "path A s g [] = []"
| "path A s g (c # file) =
     (case transitionWithChar A s c g of
        (None, g') \<Rightarrow> []
      | (Some s', g') \<Rightarrow> s' # path A s' g' file)"

text \<open>The text the loop writes to \<open>cout\<close> for the symbols it consumes.\<close>

fun trace :: "automaton \<Rightarrow> (state \<Rightarrow> string) \<Rightarrow> state option \<Rightarrow> globals \<Rightarrow> char list \<Rightarrow> string" where
  "trace A nm None g file = []"
| "trace A nm (Some s) g [] = []"
| "trace A nm (Some s) g (c # file) =
     [CHR 0x22] @ nm s @ [CHR 0x22] @ [CHR ''-''] @ [c] @ ''->'' @
     (case transitionWithChar A s c g of (s', g') \<Rightarrow> trace A nm s' g' file)"

text \<open>The \<open>DFAstate\<close> objects declared in \<open>main\<close>, with the bounds of the arrays.\<close>

fun declared :: "state \<Rightarrow> bool" where
  "declared start = True"
| "declared (openDoc i) = (i < 5)"
| "declared (openDocID i) = (i < 7)"
| "declared (msg i) = (i < 3)"
| "declared (msgdig i) = (i < 2)"
| "declared (closeDocID i) = (i < 8)"
| "declared subject = True"
| "declared notdelimited = True"
| "declared delimited = True"
| "declared (free_stuff i) = (i < 5)"
| "declared (free_access i) = (i < 6)"
| "declared (free_software i) = (i < 8)"
| "declared (free_vacation i) = (i < 8)"
| "declared (free_trials i) = (i < 6)"
| "declared (win i) = (i < 4)"
| "declared (winners i) = (i < 3)"
| "declared (winnings i) = (i < 4)"
| "declared isSpam = True"
| "declared (closeDoc i) = (i < 5)"
| "declared (closeDocSpam i) = (i < 5)"

text \<open>States reachable from \<open>start\<close> by transitions the automaton takes.\<close>

inductive reachable :: "automaton \<Rightarrow> state \<Rightarrow> bool" for A :: automaton where
  reachable_start: "reachable A start"
| reachable_step:
    "reachable A s \<Longrightarrow> transitionWithChar A s c g = (Some s', g') \<Longrightarrow> reachable A s'"

text \<open>The flagged sink and the close-tag chain that is entered from it.\<close>

fun in_spam_chain :: "state \<Rightarrow> bool" where
  "in_spam_chain isSpam = True"
| "in_spam_chain (closeDocSpam i) = (i < 5)"
| "in_spam_chain s = False"

text \<open>States of the phrase matcher: the \<open>win\<close>, \<open>winners\<close>, \<open>winnings\<close> and \<open>free_*\<close> chains.\<close>

fun phrase_state :: "state \<Rightarrow> bool" where
  "phrase_state (win i) = True"
| "phrase_state (winners i) = True"
| "phrase_state (winnings i) = True"
| "phrase_state (free_stuff i) = True"
| "phrase_state (free_access i) = True"
| "phrase_state (free_software i) = True"
| "phrase_state (free_trials i) = True"
| "phrase_state (free_vacation i) = True"
| "phrase_state s = False"

text \<open>
  A bound on \<open>currentMessageNum\<close> in each state, used to show that the accumulator, modelled
  as an unbounded integer, never leaves the range of a C++ \<open>int\<close>.
\<close>

fun id_limit :: "state \<Rightarrow> int" where
  "id_limit (openDoc i) = (if i = 4 then 0 else 99)"
| "id_limit (openDocID i) = 0"
| "id_limit (msg i) = 0"
| "id_limit (msgdig i) = (if i = 0 then 9 else 99)"
| "id_limit s = 99"

text \<open>Inputs used below: one record with the identifier digits and the body text given.\<close>

definition record_text :: "string \<Rightarrow> string \<Rightarrow> string" where
  "record_text ident body =
     ''<DOC><DOCID>msg'' @ ident @ ''</DOCID>'' @ endl @ ''Subj'' @ endl @ endl @ body @ endl @ ''</DOC>''"

text \<open>
  An automaton with a coverage defect, for exercising the failure path of the loop:
  \<open>start\<close> moves to \<open>openDoc[0]\<close> on every symbol and \<open>openDoc[0]\<close> has no transitions.
\<close>

definition defective :: automaton where
  "defective = addTransition start everything (openDoc 0) None (- 129) (\<lambda>s. [])"

abbreviation rule :: "charComparator \<Rightarrow> state \<Rightarrow> charConsumer option \<Rightarrow> int \<Rightarrow> transitionRecord" where
  "rule which wher does what \<equiv> \<lparr>onSymbols = which, to = wher, doing = does, comparedTo = what\<rparr>"

section \<open>The transition table of each state\<close>

lemma fold_exec_apply:
  "fold exec cs A s =
     A s @ map (\<lambda>(s, which, wher, does, what). rule which wher does what)
             (filter (\<lambda>c. fst c = s) cs)"
  by (induction cs arbitrary: A) (auto simp: addTransition_def)

lemma automaton_filter:
  "automaton s =
     map (\<lambda>(s, which, wher, does, what). rule which wher does what)
       (filter (\<lambda>c. fst c = s) main_calls)"
  by (simp add: automaton_def fold_exec_apply)

lemma filter_call_in:
  "fst c = s \<Longrightarrow> filter (\<lambda>c. fst c = s) (c # cs) = c # filter (\<lambda>c. fst c = s) cs"
  by simp

lemma filter_call_out:
  "fst c \<noteq> s \<Longrightarrow> filter (\<lambda>c. fst c = s) (c # cs) = filter (\<lambda>c. fst c = s) cs"
  by simp

lemmas table_simps =
  filter_call_in filter_call_out filter.simps(1) fst_conv state.inject state.distinct
  simp_thms rel_simps list.map case_prod_conv append.simps append_Nil2

lemma automaton_start:
  "automaton start =
     [rule justChar (openDoc 0) None (char_val CHR ''<''),
      rule everything start None (- 129)]"
  unfolding automaton_filter main_calls_def filter_append map_append
  by (simp only: table_simps; simp add: upt_conv_Cons)+

lemma automaton_openDoc:
  "automaton (openDoc 0) =
     [rule justChar (openDoc 1) None (char_val CHR ''D''),
      rule everything start None (- 129)]"
  "automaton (openDoc 1) =
     [rule justChar (openDoc 2) None (char_val CHR ''O''),
      rule everything start None (- 129)]"
  "automaton (openDoc 2) =
     [rule justChar (openDoc 3) None (char_val CHR ''C''),
      rule everything start None (- 129)]"
  "automaton (openDoc 3) =
     [rule justChar (openDoc 4) (Some newMsg) (char_val CHR ''>''),
      rule everything start None (- 129)]"
  "automaton (openDoc 4) =
     [rule whitespace (openDoc 4) None (- 129),
      rule justChar (openDocID 0) None (char_val CHR ''<''),
      rule everything start None (- 129)]"
  unfolding automaton_filter main_calls_def filter_append map_append
  by (simp only: table_simps; simp add: upt_conv_Cons)+

lemma automaton_openDocID:
  "automaton (openDocID 0) =
     [rule justChar (openDocID 1) None (char_val CHR ''D''),
      rule everything start None (- 129)]"
  "automaton (openDocID 1) =
     [rule justChar (openDocID 2) None (char_val CHR ''O''),
      rule everything start None (- 129)]"
  "automaton (openDocID 2) =
     [rule justChar (openDocID 3) None (char_val CHR ''C''),
      rule everything start None (- 129)]"
  "automaton (openDocID 3) =
     [rule justChar (openDocID 4) None (char_val CHR ''I''),
      rule everything start None (- 129)]"
  "automaton (openDocID 4) =
     [rule justChar (openDocID 5) None (char_val CHR ''D''),
      rule everything start None (- 129)]"
  "automaton (openDocID 5) =
     [rule justChar (openDocID 6) None (char_val CHR ''>''),
      rule everything start None (- 129)]"
  "automaton (openDocID 6) =
     [rule whitespace (openDocID 6) None (- 129),
      rule justChar (msg 0) None (char_val CHR ''m''),
      rule everything start None (- 129)]"
  unfolding automaton_filter main_calls_def filter_append map_append
  by (simp only: table_simps; simp add: upt_conv_Cons)+

lemma automaton_msg:
  "automaton (msg 0) =
     [rule justChar (msg 1) None (char_val CHR ''s''),
      rule everything start None (- 129)]"
  "automaton (msg 1) =
     [rule justChar (msg 2) None (char_val CHR ''g''),
      rule everything start None (- 129)]"
  "automaton (msg 2) =
     [rule digits (msgdig 0) (Some handleMIDdig) (- 129),
      rule everything start None (- 129)]"
  unfolding automaton_filter main_calls_def filter_append map_append
  by (simp only: table_simps; simp add: upt_conv_Cons)+

lemma automaton_msgdig:
  "automaton (msgdig 0) =
     [rule justChar (closeDocID 0) None (char_val CHR ''<''),
      rule whitespace (msgdig 1) None (- 129),
      rule digits (msgdig 1) (Some handleMIDdig) (- 129),
      rule everything start None (- 129)]"
  "automaton (msgdig 1) =
     [rule justChar (closeDocID 0) None (char_val CHR ''<''),
      rule whitespace (msgdig 1) None (- 129),
      rule everything start None (- 129)]"
  unfolding automaton_filter main_calls_def filter_append map_append
  by (simp only: table_simps; simp add: upt_conv_Cons)+

lemma automaton_closeDocID:
  "automaton (closeDocID 0) =
     [rule justChar (closeDocID 1) None (char_val CHR ''/''),
      rule everything start None (- 129)]"
  "automaton (closeDocID 1) =
     [rule justChar (closeDocID 2) None (char_val CHR ''D''),
      rule everything start None (- 129)]"
  "automaton (closeDocID 2) =
     [rule justChar (closeDocID 3) None (char_val CHR ''O''),
      rule everything start None (- 129)]"
  "automaton (closeDocID 3) =
     [rule justChar (closeDocID 4) None (char_val CHR ''C''),
      rule everything start None (- 129)]"
  "automaton (closeDocID 4) =
     [rule justChar (closeDocID 5) None (char_val CHR ''I''),
      rule everything start None (- 129)]"
  "automaton (closeDocID 5) =
     [rule justChar (closeDocID 6) None (char_val CHR ''D''),
      rule everything start None (- 129)]"
  "automaton (closeDocID 6) =
     [rule justChar (closeDocID 7) None (char_val CHR ''>''),
      rule everything start None (- 129)]"
  "automaton (closeDocID 7) =
     [rule justChar subject None (char_val CHR 0x0A),
      rule everything (closeDocID 7) None (- 129)]"
  unfolding automaton_filter main_calls_def filter_append map_append
  by (simp only: table_simps; simp add: upt_conv_Cons)+

lemma automaton_subject:
  "automaton subject =
     [rule justChar delimited None (char_val CHR 0x0A),
      rule whitespace subject None (- 129),
      rule everything (closeDocID 7) None (- 129)]"
  unfolding automaton_filter main_calls_def filter_append map_append
  by (simp only: table_simps; simp add: upt_conv_Cons)+

lemma automaton_notdelimited:
  "automaton notdelimited =
     [rule justChar (closeDoc 0) None (char_val CHR ''<''),
      rule delimiters delimited None (- 129),
      rule everything notdelimited None (- 129)]"
  unfolding automaton_filter main_calls_def filter_append map_append
  by (simp only: table_simps; simp add: upt_conv_Cons)+

lemma automaton_delimited:
  "automaton delimited =
     [rule justChar (free_stuff 0) None (char_val CHR ''f''),
      rule justChar (win 0) None (char_val CHR ''w''),
      rule justChar (closeDoc 0) None (char_val CHR ''<''),
      rule delimiters delimited None (- 129),
      rule everything notdelimited None (- 129)]"
  unfolding automaton_filter main_calls_def filter_append map_append
  by (simp only: table_simps; simp add: upt_conv_Cons)+

lemma automaton_isSpam:
  "automaton isSpam =
     [rule justChar (closeDocSpam 0) None (char_val CHR ''<''),
      rule everything isSpam None (- 129)]"
  unfolding automaton_filter main_calls_def filter_append map_append
  by (simp only: table_simps; simp add: upt_conv_Cons)+

lemma automaton_closeDoc:
  "automaton (closeDoc 0) =
     [rule justChar (closeDoc 1) None (char_val CHR ''/''),
      rule delimiters delimited None (- 129),
      rule everything notdelimited None (- 129)]"
  "automaton (closeDoc 1) =
     [rule justChar (closeDoc 2) None (char_val CHR ''D''),
      rule delimiters delimited None (- 129),
      rule everything notdelimited None (- 129)]"
  "automaton (closeDoc 2) =
     [rule justChar (closeDoc 3) None (char_val CHR ''O''),
      rule delimiters delimited None (- 129),
      rule everything notdelimited None (- 129)]"
  "automaton (closeDoc 3) =
     [rule justChar (closeDoc 4) None (char_val CHR ''C''),
      rule delimiters delimited None (- 129),
      rule everything notdelimited None (- 129)]"
  "automaton (closeDoc 4) =
     [rule justChar start None (char_val CHR ''>''),
      rule delimiters delimited None (- 129),
      rule everything notdelimited None (- 129)]"
  unfolding automaton_filter main_calls_def filter_append map_append
  by (simp only: table_simps; simp add: upt_conv_Cons)+

lemma automaton_closeDocSpam:
  "automaton (closeDocSpam 0) =
     [rule justChar (closeDocSpam 1) None (char_val CHR ''/''),
      rule everything isSpam None (- 129)]"
  "automaton (closeDocSpam 1) =
     [rule justChar (closeDocSpam 2) None (char_val CHR ''D''),
      rule everything isSpam None (- 129)]"
  "automaton (closeDocSpam 2) =
     [rule justChar (closeDocSpam 3) None (char_val CHR ''O''),
      rule everything isSpam None (- 129)]"
  "automaton (closeDocSpam 3) =
     [rule justChar (closeDocSpam 4) None (char_val CHR ''C''),
      rule everything isSpam None (- 129)]"
  "automaton (closeDocSpam 4) =
     [rule justChar start None (char_val CHR ''>''),
      rule everything isSpam None (- 129)]"
  unfolding automaton_filter main_calls_def filter_append map_append
  by (simp only: table_simps; simp add: upt_conv_Cons)+

lemma automaton_win:
  "automaton (win 0) =
     [rule justChar (win 1) None (char_val CHR ''i''),
      rule delimiters delimited None (- 129),
      rule everything notdelimited None (- 129)]"
  "automaton (win 1) =
     [rule justChar (win 2) None (char_val CHR ''n''),
      rule delimiters delimited None (- 129),
      rule everything notdelimited None (- 129)]"
  "automaton (win 2) =
     [rule justChar (win 3) None (char_val CHR ''n''),
      rule delimiters isSpam (Some recordSpam) (- 129),
      rule everything notdelimited None (- 129)]"
  "automaton (win 3) =
     [rule justChar (winners 0) None (char_val CHR ''e''),
      rule justChar (winnings 0) None (char_val CHR ''i''),
      rule delimiters delimited None (- 129),
      rule everything notdelimited None (- 129)]"
  unfolding automaton_filter main_calls_def filter_append map_append
  by (simp only: table_simps; simp add: upt_conv_Cons)+

lemma automaton_winners:
  "automaton (winners 0) =
     [rule justChar (winners 1) None (char_val CHR ''r''),
      rule delimiters delimited None (- 129),
      rule everything notdelimited None (- 129)]"
  "automaton (winners 1) =
     [rule justChar (winners 2) None (char_val CHR ''s''),
      rule delimiters isSpam (Some recordSpam) (- 129),
      rule everything notdelimited None (- 129)]"
  "automaton (winners 2) =
     [rule delimiters isSpam (Some recordSpam) (- 129),
      rule everything notdelimited None (- 129)]"
  unfolding automaton_filter main_calls_def filter_append map_append
  by (simp only: table_simps; simp add: upt_conv_Cons)+

lemma automaton_winnings:
  "automaton (winnings 0) =
     [rule justChar (winnings 1) None (char_val CHR ''n''),
      rule delimiters delimited None (- 129),
      rule everything notdelimited None (- 129)]"
  "automaton (winnings 1) =
     [rule justChar (winnings 2) None (char_val CHR ''g''),
      rule delimiters delimited None (- 129),
      rule everything notdelimited None (- 129)]"
  "automaton (winnings 2) =
     [rule justChar (winnings 3) None (char_val CHR ''s''),
      rule delimiters delimited None (- 129),
      rule everything notdelimited None (- 129)]"
  "automaton (winnings 3) =
     [rule delimiters isSpam (Some recordSpam) (- 129),
      rule everything notdelimited None (- 129)]"
  unfolding automaton_filter main_calls_def filter_append map_append
  by (simp only: table_simps; simp add: upt_conv_Cons)+

lemma automaton_free_stuff:
  "automaton (free_stuff 0) =
     [rule justChar (free_stuff 1) None (char_val CHR ''r''),
      rule delimiters delimited None (- 129),
      rule everything notdelimited None (- 129)]"
  "automaton (free_stuff 1) =
     [rule justChar (free_stuff 2) None (char_val CHR ''e''),
      rule delimiters delimited None (- 129),
      rule everything notdelimited None (- 129)]"
  "automaton (free_stuff 2) =
     [rule justChar (free_stuff 3) None (char_val CHR ''e''),
      rule delimiters delimited None (- 129),
      rule everything notdelimited None (- 129)]"
  "automaton (free_stuff 3) =
     [rule justChar (free_stuff 4) None (char_val CHR '' ''),
      rule justChar delimited None (char_val CHR 0x22),
      rule everything notdelimited None (- 129)]"
  "automaton (free_stuff 4) =
     [rule justChar (free_stuff 0) None (char_val CHR ''f''),
      rule justChar (win 0) None (char_val CHR ''w''),
      rule justChar (closeDoc 0) None (char_val CHR ''<''),
      rule justChar (free_access 0) None (char_val CHR ''a''),
      rule justChar (free_software 0) None (char_val CHR ''s''),
      rule justChar (free_trials 0) None (char_val CHR ''t''),
      rule justChar (free_vacation 0) None (char_val CHR ''v''),
      rule delimiters delimited None (- 129),
      rule everything notdelimited None (- 129)]"
  unfolding automaton_filter main_calls_def filter_append map_append
  by (simp only: table_simps; simp add: upt_conv_Cons)+

lemma automaton_free_access:
  "automaton (free_access 0) =
     [rule justChar (free_access 1) None (char_val CHR ''c''),
      rule delimiters delimited None (- 129),
      rule everything notdelimited None (- 129)]"
  "automaton (free_access 1) =
     [rule justChar (free_access 2) None (char_val CHR ''c''),
      rule delimiters delimited None (- 129),
      rule everything notdelimited None (- 129)]"
  "automaton (free_access 2) =
     [rule justChar (free_access 3) None (char_val CHR ''e''),
      rule delimiters delimited None (- 129),
      rule everything notdelimited None (- 129)]"
  "automaton (free_access 3) =
     [rule justChar (free_access 4) None (char_val CHR ''s''),
      rule delimiters delimited None (- 129),
      rule everything notdelimited None (- 129)]"
  "automaton (free_access 4) =
     [rule justChar (free_access 5) None (char_val CHR ''s''),
      rule delimiters delimited None (- 129),
      rule everything notdelimited None (- 129)]"
  "automaton (free_access 5) =
     [rule delimiters isSpam (Some recordSpam) (- 129),
      rule everything notdelimited None (- 129)]"
  unfolding automaton_filter main_calls_def filter_append map_append
  by (simp only: table_simps; simp add: upt_conv_Cons)+

lemma automaton_free_software:
  "automaton (free_software 0) =
     [rule justChar (free_software 1) None (char_val CHR ''o''),
      rule delimiters delimited None (- 129),
      rule everything notdelimited None (- 129)]"
  "automaton (free_software 1) =
     [rule justChar (free_software 2) None (char_val CHR ''f''),
      rule delimiters delimited None (- 129),
      rule everything notdelimited None (- 129)]"
  "automaton (free_software 2) =
     [rule justChar (free_software 3) None (char_val CHR ''t''),
      rule delimiters delimited None (- 129),
      rule everything notdelimited None (- 129)]"
  "automaton (free_software 3) =
     [rule justChar (free_software 4) None (char_val CHR ''w''),
      rule delimiters delimited None (- 129),
      rule everything notdelimited None (- 129)]"
  "automaton (free_software 4) =
     [rule justChar (free_software 5) None (char_val CHR ''a''),
      rule delimiters delimited None (- 129),
      rule everything notdelimited None (- 129)]"
  "automaton (free_software 5) =
     [rule justChar (free_software 6) None (char_val CHR ''r''),
      rule delimiters delimited None (- 129),
      rule everything notdelimited None (- 129)]"
  "automaton (free_software 6) =
     [rule justChar (free_software 7) None (char_val CHR ''e''),
      rule delimiters delimited None (- 129),
      rule everything notdelimited None (- 129)]"
  "automaton (free_software 7) =
     [rule delimiters isSpam (Some recordSpam) (- 129),
      rule everything notdelimited None (- 129)]"
  unfolding automaton_filter main_calls_def filter_append map_append
  by (simp only: table_simps; simp add: upt_conv_Cons)+

lemma automaton_free_trials:
  "automaton (free_trials 0) =
     [rule justChar (free_trials 1) None (char_val CHR ''r''),
      rule delimiters delimited None (- 129),
      rule everything notdelimited None (- 129)]"
  "automaton (free_trials 1) =
     [rule justChar (free_trials 2) None (char_val CHR ''i''),
      rule delimiters delimited None (- 129),
      rule everything notdelimited None (- 129)]"
  "automaton (free_trials 2) =
     [rule justChar (free_trials 3) None (char_val CHR ''a''),
      rule delimiters delimited None (- 129),
      rule everything notdelimited None (- 129)]"
  "automaton (free_trials 3) =
     [rule justChar (free_trials 4) None (char_val CHR ''l''),
      rule delimiters delimited None (- 129),
      rule everything notdelimited None (- 129)]"
  "automaton (free_trials 4) =
     [rule justChar (free_trials 5) None (char_val CHR ''s''),
      rule delimiters delimited None (- 129),
      rule everything notdelimited None (- 129)]"
  "automaton (free_trials 5) =
     [rule delimiters isSpam (Some recordSpam) (- 129),
      rule everything notdelimited None (- 129)]"
  unfolding automaton_filter main_calls_def filter_append map_append
  by (simp only: table_simps; simp add: upt_conv_Cons)+

lemma automaton_free_vacation:
  "automaton (free_vacation 0) =
     [rule justChar (free_vacation 1) None (char_val CHR ''a''),
      rule delimiters delimited None (- 129),
      rule everything notdelimited None (- 129)]"
  "automaton (free_vacation 1) =
     [rule justChar (free_vacation 2) None (char_val CHR ''c''),
      rule delimiters delimited None (- 129),
      rule everything notdelimited None (- 129)]"
  "automaton (free_vacation 2) =
     [rule justChar (free_vacation 3) None (char_val CHR ''a''),
      rule delimiters delimited None (- 129),
      rule everything notdelimited None (- 129)]"
  "automaton (free_vacation 3) =
     [rule justChar (free_vacation 4) None (char_val CHR ''t''),
      rule delimiters delimited None (- 129),
      rule everything notdelimited None (- 129)]"
  "automaton (free_vacation 4) =
     [rule justChar (free_vacation 5) None (char_val CHR ''i''),
      rule delimiters delimited None (- 129),
      rule everything notdelimited None (- 129)]"
  "automaton (free_vacation 5) =
     [rule justChar (free_vacation 6) None (char_val CHR ''o''),
      rule delimiters delimited None (- 129),
      rule everything notdelimited None (- 129)]"
  "automaton (free_vacation 6) =
     [rule justChar (free_vacation 7) None (char_val CHR ''n''),
      rule delimiters delimited None (- 129),
      rule everything notdelimited None (- 129)]"
  "automaton (free_vacation 7) =
     [rule delimiters isSpam (Some recordSpam) (- 129),
      rule everything notdelimited None (- 129)]"
  unfolding automaton_filter main_calls_def filter_append map_append
  by (simp only: table_simps; simp add: upt_conv_Cons)+

lemmas automaton_tables =
  automaton_start
  automaton_openDoc
  automaton_openDocID
  automaton_msg
  automaton_msgdig
  automaton_closeDocID
  automaton_subject
  automaton_notdelimited
  automaton_delimited
  automaton_isSpam
  automaton_closeDoc
  automaton_closeDocSpam
  automaton_win
  automaton_winners
  automaton_winnings
  automaton_free_stuff
  automaton_free_access
  automaton_free_software
  automaton_free_trials
  automaton_free_vacation

section \<open>Evaluating guards and single transitions\<close>

lemma char_val_inj: "char_val c = char_val d \<longleftrightarrow> c = d"
proof -
  have b: "0 \<le> (of_char x :: int) \<and> (of_char x :: int) < 256" for x
    by (cases x) (simp add: of_char_def)
  have "(of_char c :: int) = of_char d \<Longrightarrow> c = d"
    by (metis char_of_comp_of_char comp_apply id_apply)
  with b[of c] b[of d] show ?thesis
    by (auto simp: char_val_def split: if_splits)
qed

lemma justChar_lit [simp]: "justChar c (char_val d) = (c = d)"
  by (simp add: justChar_def char_val_inj)

lemma digits_iff: "digits c a \<longleftrightarrow> c \<in> set ''0123456789''"
  by (cases c) (simp add: digits_def char_val_def)

lemma handleMIDdig_digit:
  "handleMIDdig CHR ''0'' g = g\<lparr>currentMessageNum := currentMessageNum g * 10 + 0\<rparr>"
  "handleMIDdig CHR ''1'' g = g\<lparr>currentMessageNum := currentMessageNum g * 10 + 1\<rparr>"
  "handleMIDdig CHR ''2'' g = g\<lparr>currentMessageNum := currentMessageNum g * 10 + 2\<rparr>"
  "handleMIDdig CHR ''3'' g = g\<lparr>currentMessageNum := currentMessageNum g * 10 + 3\<rparr>"
  "handleMIDdig CHR ''4'' g = g\<lparr>currentMessageNum := currentMessageNum g * 10 + 4\<rparr>"
  "handleMIDdig CHR ''5'' g = g\<lparr>currentMessageNum := currentMessageNum g * 10 + 5\<rparr>"
  "handleMIDdig CHR ''6'' g = g\<lparr>currentMessageNum := currentMessageNum g * 10 + 6\<rparr>"
  "handleMIDdig CHR ''7'' g = g\<lparr>currentMessageNum := currentMessageNum g * 10 + 7\<rparr>"
  "handleMIDdig CHR ''8'' g = g\<lparr>currentMessageNum := currentMessageNum g * 10 + 8\<rparr>"
  "handleMIDdig CHR ''9'' g = g\<lparr>currentMessageNum := currentMessageNum g * 10 + 9\<rparr>"
  by (simp_all add: handleMIDdig_def char_val_def)

lemmas step_simps =
  transitionWithChar_def automaton_tables[unfolded One_nat_def]
  everything_def whitespace_def delimiters_def digits_iff
  newMsg_def handleMIDdig_digit recordSpam_def

lemma nat_less_enum:
  "(i::nat) < 2 \<Longrightarrow> i = 0 \<or> i = 1"
  "(i::nat) < 3 \<Longrightarrow> i = 0 \<or> i = 1 \<or> i = 2"
  "(i::nat) < 4 \<Longrightarrow> i = 0 \<or> i = 1 \<or> i = 2 \<or> i = 3"
  "(i::nat) < 5 \<Longrightarrow> i = 0 \<or> i = 1 \<or> i = 2 \<or> i = 3 \<or> i = 4"
  "(i::nat) < 6 \<Longrightarrow> i = 0 \<or> i = 1 \<or> i = 2 \<or> i = 3 \<or> i = 4 \<or> i = 5"
  "(i::nat) < 7 \<Longrightarrow> i = 0 \<or> i = 1 \<or> i = 2 \<or> i = 3 \<or> i = 4 \<or> i = 5 \<or> i = 6"
  "(i::nat) < 8 \<Longrightarrow> i = 0 \<or> i = 1 \<or> i = 2 \<or> i = 3 \<or> i = 4 \<or> i = 5 \<or> i = 6 \<or> i = 7"
  by arith+

section \<open>The loop in terms of its effect on the state pointer\<close>

lemma run_append:
  "run A cs g (xs @ ys) = (case run A cs g xs of (cs', g') \<Rightarrow> run A cs' g' ys)"
  by (induction A cs g xs rule: run.induct) (auto split: prod.splits)

lemma path_run:
  "fst (run A (Some s) g fl) = Some s' \<Longrightarrow>
   length (path A s g fl) = length fl \<and> last (s # path A s g fl) = s'"
proof (induction fl arbitrary: s g)
  case Nil
  then show ?case by simp
next
  case (Cons c fl)
  obtain n g' where st: "transitionWithChar A s c g = (n, g')"
    by (cases "transitionWithChar A s c g")
  with Cons.prems obtain s1 where n: "n = Some s1"
    by (cases n) auto
  from Cons.prems st n have "fst (run A (Some s1) g' fl) = Some s'"
    by simp
  from Cons.IH[OF this] st n show ?case
    by simp
qed

lemma main_loop_finished:
  "run A cs g fl = (Some s', g') \<Longrightarrow>
   main_loop A nm cs input g out fl =
     \<lparr>exit_code = 0,
      cout = out @ trace A nm cs g fl @ ''<end>'' @ endl @
             ''The following messages were spam:'' @ report (spamMessages g') @ endl,
      cerr = []\<rparr>"
  by (induction A nm cs input g out fl rule: main_loop.induct) (auto split: prod.splits)

lemma exit_code_main_loop:
  "exit_code (main_loop A nm cs input g out fl) = (if fst (run A cs g fl) = None then - 1 else 0)"
  by (induction A nm cs input g out fl rule: main_loop.induct) (auto split: prod.splits)

lemmas input_simps = record_text_def endl_def initial_def

section \<open>Whole-file scenarios\<close>

text \<open>
  Claim C1. Scanning \<open><DOC><DOCID>msg42</DOCID>\nSubj\n\nYou win today"\n</DOC>\<close> ends
  normally (exit code 0, nothing on \<open>cerr\<close>) with the identifier 42 queued and reported; the
  same record with the body line \<open>You window today\<close> (with or without the closing quote)
  queues and reports nothing.
\<close>

theorem end_to_end_scenario:
  "run automaton (Some start) initial (record_text ''42'' (''You win today'' @ [CHR 0x22]))
     = (Some start, \<lparr>spamMessages = [42], currentMessageNum = 42\<rparr>)
   \<and> main (record_text ''42'' (''You win today'' @ [CHR 0x22])) =
       \<lparr>exit_code = 0,
        cout = trace automaton name (Some start) initial (record_text ''42'' (''You win today'' @ [CHR 0x22]))
               @ ''<end>'' @ endl @ ''The following messages were spam: 42'' @ endl,
        cerr = []\<rparr>
   \<and> run automaton (Some start) initial (record_text ''42'' (''You window today'' @ [CHR 0x22]))
     = (Some start, \<lparr>spamMessages = [], currentMessageNum = 42\<rparr>)
   \<and> main (record_text ''42'' (''You window today'' @ [CHR 0x22])) =
       \<lparr>exit_code = 0,
        cout = trace automaton name (Some start) initial (record_text ''42'' (''You window today'' @ [CHR 0x22]))
               @ ''<end>'' @ endl @ ''The following messages were spam:'' @ endl,
        cerr = []\<rparr>
   \<and> main (record_text ''42'' ''You window today'') =
       \<lparr>exit_code = 0,
        cout = trace automaton name (Some start) initial (record_text ''42'' ''You window today'')
               @ ''<end>'' @ endl @ ''The following messages were spam:'' @ endl,
        cerr = []\<rparr>"
proof -
  have r1: "run automaton (Some start) initial (record_text ''42'' (''You win today'' @ [CHR 0x22]))
     = (Some start, \<lparr>spamMessages = [42], currentMessageNum = 42\<rparr>)"
    by (simp add: input_simps step_simps)
  have r2: "run automaton (Some start) initial (record_text ''42'' (''You window today'' @ [CHR 0x22]))
     = (Some start, \<lparr>spamMessages = [], currentMessageNum = 42\<rparr>)"
    by (simp add: input_simps step_simps)
  have r3: "run automaton (Some start) initial (record_text ''42'' ''You window today'')
     = (Some start, \<lparr>spamMessages = [], currentMessageNum = 42\<rparr>)"
    by (simp add: input_simps step_simps)
  have sh: "show_int 42 = ''42''"
    by (simp add: show_int_def digit_char_def)
  show ?thesis
    using main_loop_finished[OF r1, of name "CHR 0x00" "[]"]
      main_loop_finished[OF r2, of name "CHR 0x00" "[]"]
      main_loop_finished[OF r3, of name "CHR 0x00" "[]"] r1 r2
    by (simp add: main_def sh)
qed

text \<open>
  Claim C10. On \<open><<DOC>\<close> the second \<open><\<close> is consumed by the catch-all of \<open>openDoc[0]\<close>
  back to \<open>start\<close>, and the scanner is still in \<open>start\<close> after the \<open>>\<close>; no record is
  opened. A whole record preceded by a spurious \<open><\<close> is therefore missed, although the same
  record alone is flagged.
\<close>

theorem spurious_open_angle_misses_record:
  "path automaton start g ''<<DOC>'' = [openDoc 0, start, start, start, start, start]
   \<and> run automaton (Some start) g ''<<DOC>'' = (Some start, g)
   \<and> path automaton start g ''<DOC>'' = [openDoc 0, openDoc 1, openDoc 2, openDoc 3, openDoc 4]
   \<and> run automaton (Some start) initial (CHR ''<'' # record_text ''42'' ''You win today'')
       = (Some start, initial)
   \<and> run automaton (Some start) initial (record_text ''42'' ''You win today'')
       = (Some start, \<lparr>spamMessages = [42], currentMessageNum = 42\<rparr>)"
  by (simp add: input_simps step_simps)

section \<open>The engine: first accepting rule wins\<close>

text \<open>
  Claim C3. For any automaton, state and symbol: when the rule list of the state is
  \<open>pre @ r # post\<close>, no rule of \<open>pre\<close> accepts the symbol and \<open>r\<close> accepts it, then
  \<open>transitionWithChar\<close> returns the target of \<open>r\<close> and the globals after one call of the
  action of \<open>r\<close> (if it has one) on that symbol. The rules in \<open>post\<close> play no part, whether or not
  they accept the symbol. The order of the list is the order of the \<open>addTransition\<close> calls:
  each call appends its rule at the end.
\<close>

theorem first_accepting_rule_taken:
  assumes "A s = pre @ r # post"
    and "\<forall>q\<in>set pre. \<not> onSymbols q c (comparedTo q)"
    and "onSymbols r c (comparedTo r)"
  shows "transitionWithChar A s c g =
           (Some (to r), (case doing r of None \<Rightarrow> g | Some f \<Rightarrow> f c g))
    \<and> addTransition s' which wher does what B s' = B s' @ [rule which wher does what]"
proof -
  have "take_first (pre @ r # post) c g =
          (Some (to r), (case doing r of None \<Rightarrow> g | Some f \<Rightarrow> f c g))"
    using assms(2,3) by (induction pre) simp_all
  with assms(1) show ?thesis
    by (simp add: transitionWithChar_def addTransition_def)
qed

theorem first_accepting_rule_taken_witness:
  "automaton (win 2) =
     [rule justChar (win 3) None (char_val CHR ''n'')] @
     rule delimiters isSpam (Some recordSpam) (- 129) # [rule everything notdelimited None (- 129)]
   \<and> \<not> onSymbols (rule justChar (win 3) None (char_val CHR ''n'')) CHR '' '' (char_val CHR ''n'')
   \<and> onSymbols (rule delimiters isSpam (Some recordSpam) (- 129)) CHR '' '' (- 129)
   \<and> onSymbols (rule everything notdelimited None (- 129)) CHR '' '' (- 129)
   \<and> transitionWithChar automaton (win 2) CHR '' '' initial =
        (Some isSpam, \<lparr>spamMessages = [0], currentMessageNum = 0\<rparr>)"
  using first_accepting_rule_taken
    [of automaton "win 2" "[rule justChar (win 3) None (char_val CHR ''n'')]"
        "rule delimiters isSpam (Some recordSpam) (- 129)"
        "[rule everything notdelimited None (- 129)]" "CHR '' ''" initial]
  by (simp add: automaton_tables everything_def delimiters_def recordSpam_def initial_def)

section \<open>Phrase matching in the record body\<close>

text \<open>
  Claim C5. From the within-delimiter state: \<open>winning\<close> followed by a non-delimiter appends
  nothing and never enters \<open>isSpam\<close>; \<open>win\<close> followed by a space, and \<open>win\<close> between double
  quotes (from either scanning state), append the current identifier and enter \<open>isSpam\<close>;
  \<open>winners\<close> followed by a delimiter walks \<open>win[0..3]\<close> and \<open>winners[0..2]\<close> and appends only at
  the final delimiter.
\<close>

theorem boundary_enforcement:
  assumes "\<not> delimiters c a" and "delimiters d b"
  shows "spamMessages (snd (run automaton (Some delimited) g (''winning'' @ [c]))) = spamMessages g
    \<and> isSpam \<notin> set (path automaton delimited g (''winning'' @ [c]))
    \<and> run automaton (Some delimited) g ''win '' =
         (Some isSpam, g\<lparr>spamMessages := spamMessages g @ [currentMessageNum g]\<rparr>)
    \<and> run automaton (Some delimited) g ([CHR 0x22] @ ''win'' @ [CHR 0x22]) =
         (Some isSpam, g\<lparr>spamMessages := spamMessages g @ [currentMessageNum g]\<rparr>)
    \<and> run automaton (Some notdelimited) g ([CHR 0x22] @ ''win'' @ [CHR 0x22]) =
         (Some isSpam, g\<lparr>spamMessages := spamMessages g @ [currentMessageNum g]\<rparr>)
    \<and> path automaton delimited g (''winners'' @ [d]) =
         [win 0, win 1, win 2, win 3, winners 0, winners 1, winners 2, isSpam]
    \<and> run automaton (Some delimited) g ''winners'' = (Some (winners 2), g)
    \<and> run automaton (Some delimited) g (''winners'' @ [d]) =
         (Some isSpam, g\<lparr>spamMessages := spamMessages g @ [currentMessageNum g]\<rparr>)"
  using assms by (auto simp add: step_simps)

theorem boundary_enforcement_witness:
  "\<not> delimiters CHR ''x'' 0 \<and> delimiters CHR '' '' 0
   \<and> spamMessages (snd (run automaton (Some delimited) initial ''winningx'')) = []
   \<and> run automaton (Some delimited) initial ''winners '' =
        (Some isSpam, \<lparr>spamMessages = [0], currentMessageNum = 0\<rparr>)"
  using boundary_enforcement [of "CHR ''x''" 0 "CHR '' ''" 0 initial]
  by (simp add: delimiters_def initial_def)

text \<open>
  Claim C6. The identifier sub-graph takes a digit in \<open>msg[2]\<close> and one more in \<open>msgdig[0]\<close>;
  \<open>msgdig[1]\<close> has no digit rule, so the third digit of \<open>123\<close> falls to the catch-all and the
  scanner is back in \<open>start\<close> with the identifier 12. A record with identifier \<open>msg123\<close> is
  therefore not flagged, where the same record with \<open>msg12\<close> is.
\<close>

theorem identifier_third_digit_rejected:
  "path automaton (msg 2) (g\<lparr>currentMessageNum := 0\<rparr>) ''123'' = [msgdig 0, msgdig 1, start]
   \<and> run automaton (Some (msg 2)) (g\<lparr>currentMessageNum := 0\<rparr>) ''123'' =
        (Some start, g\<lparr>currentMessageNum := 12\<rparr>)
   \<and> run automaton (Some start) initial (record_text ''123'' ''You win today'') =
        (Some start, \<lparr>spamMessages = [], currentMessageNum = 12\<rparr>)
   \<and> run automaton (Some start) initial (record_text ''12'' ''You win today'') =
        (Some start, \<lparr>spamMessages = [12], currentMessageNum = 12\<rparr>)"
  by (simp add: input_simps step_simps)

text \<open>
  What does hold when a phrase state takes a step on a symbol other than \<open><\<close>: either the
  step is the one the mid-token state takes on that symbol, or it stays in the phrase matcher
  or completes a phrase.
\<close>

lemma abandon_like_mid_token:
  assumes "declared s" and "phrase_state s" and "c \<noteq> CHR ''<''"
  shows "transitionWithChar automaton s c g = transitionWithChar automaton notdelimited c g
    \<or> (case fst (transitionWithChar automaton s c g) of
          None \<Rightarrow> False
        | Some t \<Rightarrow> phrase_state t \<or> t = isSpam)"
  using assms
  apply (cases s; simp)
  apply (drule nat_less_enum, elim disjE; simp add: step_simps)+
  done

text \<open>
  Claim C8. In a phrase state such as \<open>win[0]\<close> the symbol \<open><\<close> falls to the catch-all and
  leads to the mid-token state, whereas both generic scanning states (and \<open>free_stuff[4]\<close>)
  send it to \<open>closeDoc[0]\<close>. A body ending in \<open>w</DOC>\<close> therefore does not close its record: the next
  record is scanned as body text and its phrase is flagged under the identifier of the first.
\<close>

theorem abandoned_phrase_swallows_open_angle:
  "transitionWithChar automaton (win 0) CHR ''<'' g = (Some notdelimited, g)
   \<and> transitionWithChar automaton notdelimited CHR ''<'' g = (Some (closeDoc 0), g)
   \<and> transitionWithChar automaton delimited CHR ''<'' g = (Some (closeDoc 0), g)
   \<and> transitionWithChar automaton (free_stuff 4) CHR ''<'' g = (Some (closeDoc 0), g)
   \<and> run automaton (Some delimited) g ''w</DOC>'' = (Some notdelimited, g)
   \<and> run automaton (Some delimited) g ''x</DOC>'' = (Some start, g)
   \<and> run automaton (Some start) initial
        (''<DOC><DOCID>msg1</DOCID>'' @ endl @ ''Subj'' @ endl @ endl @ ''to w</DOC>'' @ endl @
         record_text ''2'' ''You win today'') =
        (Some start, \<lparr>spamMessages = [1], currentMessageNum = 1\<rparr>)"
  by (simp add: input_simps step_simps)

section \<open>The unhandled-symbol failure\<close>

text \<open>
  Claim C9, as amended. When the scan of \<open>pre\<close> has reached state \<open>s\<close> and \<open>transitionWithChar\<close>
  returns the null pointer on the next symbol \<open>c\<close>, then whatever follows \<open>c\<close> in the file is
  not read; the exit code is \<open>-1\<close>; \<open>cerr\<close> holds \<open>Error: Unhandled symbol:\<close> and \<open>c\<close>, with no
  state name; \<open>cout\<close> holds the trace, ending with the entry of \<open>s\<close> and \<open>c\<close>, and no report
  of flagged identifiers.
\<close>

theorem unhandled_symbol_halts:
  assumes "run A (Some s0) g pre = (Some s, g1)"
    and "fst (transitionWithChar A s c g1) = None"
  shows "main_loop A nm (Some s0) input g out (pre @ c # rest) =
     \<lparr>exit_code = - 1,
      cout = out @ trace A nm (Some s0) g pre @ [CHR 0x22] @ nm s @ [CHR 0x22] @ ''-'' @ [c] @ ''->'',
      cerr = ''Error: Unhandled symbol:'' @ [c] @ endl\<rparr>"
  using assms
proof (induction pre arbitrary: s0 g out input)
  case Nil
  then show ?case by (auto split: prod.splits)
next
  case (Cons p ps)
  obtain n g' where st: "transitionWithChar A s0 p g = (n, g')"
    by (cases "transitionWithChar A s0 p g")
  with Cons.prems(1) obtain s1 where n: "n = Some s1"
    by (cases n) auto
  from Cons.prems(1) st n have "run A (Some s1) g' ps = (Some s, g1)"
    by simp
  from Cons.IH[OF this Cons.prems(2)] st n show ?case
    by simp
qed

lemmas defective_simps =
  defective_def addTransition_def transitionWithChar_def everything_def
  iteratedname_def digit_char_def endl_def

theorem unhandled_symbol_halts_witness:
  "run defective (Some start) initial ''a'' = (Some (openDoc 0), initial)
   \<and> fst (transitionWithChar defective (openDoc 0) CHR ''b'' initial) = None
   \<and> main_loop defective name (Some start) (CHR 0x00) initial [] (''a'' @ CHR ''b'' # ''c'') =
       \<lparr>exit_code = - 1,
        cout = [CHR 0x22] @ ''start'' @ [CHR 0x22] @ ''-a->'' @ [CHR 0x22] @ ''openDoc_0'' @ [CHR 0x22] @ ''-b->'',
        cerr = ''Error: Unhandled symbol:b'' @ [CHR 0x0A]\<rparr>"
  using unhandled_symbol_halts
    [of defective start initial "''a''" "openDoc 0" initial "CHR ''b''" name "CHR 0x00" "[]" "''c''"]
  by (simp add: defective_simps)

text \<open>
  Claim C9 as stated fails: the failure report written to \<open>cerr\<close> names the symbol only.
  With the defective automaton and the input \<open>abc\<close> the offending state is \<open>openDoc_0\<close>, which
  does not occur in the text on \<open>cerr\<close>.
\<close>

theorem failure_report_omits_state:
  "name (openDoc 0) = ''openDoc_0''
   \<and> cerr (main_loop defective name (Some start) (CHR 0x00) initial [] ''abc'') =
        ''Error: Unhandled symbol:b'' @ [CHR 0x0A]
   \<and> \<not> sublist (name (openDoc 0))
          (cerr (main_loop defective name (Some start) (CHR 0x00) initial [] ''abc''))"
  by (simp add: defective_simps sublist_Cons_right)

section \<open>Properties of every declared state\<close>

lemma step_effect:
  assumes "declared s"
  shows "\<exists>s' g'. transitionWithChar automaton s c g = (Some s', g') \<and> declared s' \<and>
           (spamMessages g' = spamMessages g \<or>
            (s' = isSpam \<and> spamMessages g' = spamMessages g @ [currentMessageNum g]))"
  using assms
  by (cases s; simp) (auto dest!: nat_less_enum simp add: step_simps handleMIDdig_def)

lemma declared_catch_all:
  assumes "declared s"
  shows "automaton s \<noteq> [] \<and> onSymbols (last (automaton s)) = everything"
  using assms
  by (cases s; simp) (auto dest!: nat_less_enum simp add: automaton_tables[unfolded One_nat_def])

lemma reachable_declared: "reachable automaton s \<Longrightarrow> declared s"
proof (induction rule: reachable.induct)
  case reachable_start
  show ?case by simp
next
  case (reachable_step s c g s' g')
  with step_effect[of s c g] show ?case by auto
qed

lemma run_declared:
  "declared s \<Longrightarrow> \<exists>s' g'. run automaton (Some s) g fl = (Some s', g') \<and> declared s'"
proof (induction fl arbitrary: s g)
  case Nil
  then show ?case by simp
next
  case (Cons c fl)
  from step_effect[OF Cons.prems, of c g] obtain s1 g1
    where st: "transitionWithChar automaton s c g = (Some s1, g1)" and d: "declared s1"
    by blast
  from Cons.IH[OF d, of g1] st show ?case by simp
qed

lemma reachable_via:
  "reachable automaton s \<Longrightarrow> fst (transitionWithChar automaton s c initial) = Some s' \<Longrightarrow>
   reachable automaton s'"
  by (cases "transitionWithChar automaton s c initial") (auto intro: reachable_step)

text \<open>Every declared state is reachable, so the properties below cover all 84 states.\<close>

lemma declared_reachable:
  assumes "declared s"
  shows "reachable automaton s"
proof -
  have r0: "reachable automaton start"
    by (rule reachable_start)
  have r1: "reachable automaton (openDoc 0)"
    by (rule reachable_via[OF r0, of "CHR ''<''"]) (simp add: step_simps)
  have r2: "reachable automaton (openDoc 1)"
    by (rule reachable_via[OF r1, of "CHR ''D''"]) (simp add: step_simps)
  have r3: "reachable automaton (openDoc 2)"
    by (rule reachable_via[OF r2, of "CHR ''O''"]) (simp add: step_simps)
  have r4: "reachable automaton (openDoc 3)"
    by (rule reachable_via[OF r3, of "CHR ''C''"]) (simp add: step_simps)
  have r5: "reachable automaton (openDoc 4)"
    by (rule reachable_via[OF r4, of "CHR ''>''"]) (simp add: step_simps)
  have r6: "reachable automaton (openDocID 0)"
    by (rule reachable_via[OF r5, of "CHR ''<''"]) (simp add: step_simps)
  have r7: "reachable automaton (openDocID 1)"
    by (rule reachable_via[OF r6, of "CHR ''D''"]) (simp add: step_simps)
  have r8: "reachable automaton (openDocID 2)"
    by (rule reachable_via[OF r7, of "CHR ''O''"]) (simp add: step_simps)
  have r9: "reachable automaton (openDocID 3)"
    by (rule reachable_via[OF r8, of "CHR ''C''"]) (simp add: step_simps)
  have r10: "reachable automaton (openDocID 4)"
    by (rule reachable_via[OF r9, of "CHR ''I''"]) (simp add: step_simps)
  have r11: "reachable automaton (openDocID 5)"
    by (rule reachable_via[OF r10, of "CHR ''D''"]) (simp add: step_simps)
  have r12: "reachable automaton (openDocID 6)"
    by (rule reachable_via[OF r11, of "CHR ''>''"]) (simp add: step_simps)
  have r13: "reachable automaton (msg 0)"
    by (rule reachable_via[OF r12, of "CHR ''m''"]) (simp add: step_simps)
  have r14: "reachable automaton (msg 1)"
    by (rule reachable_via[OF r13, of "CHR ''s''"]) (simp add: step_simps)
  have r15: "reachable automaton (msg 2)"
    by (rule reachable_via[OF r14, of "CHR ''g''"]) (simp add: step_simps)
  have r16: "reachable automaton (msgdig 0)"
    by (rule reachable_via[OF r15, of "CHR ''5''"]) (simp add: step_simps)
  have r17: "reachable automaton (closeDocID 0)"
    by (rule reachable_via[OF r16, of "CHR ''<''"]) (simp add: step_simps)
  have r18: "reachable automaton (msgdig 1)"
    by (rule reachable_via[OF r16, of "CHR '' ''"]) (simp add: step_simps)
  have r19: "reachable automaton (closeDocID 1)"
    by (rule reachable_via[OF r17, of "CHR ''/''"]) (simp add: step_simps)
  have r20: "reachable automaton (closeDocID 2)"
    by (rule reachable_via[OF r19, of "CHR ''D''"]) (simp add: step_simps)
  have r21: "reachable automaton (closeDocID 3)"
    by (rule reachable_via[OF r20, of "CHR ''O''"]) (simp add: step_simps)
  have r22: "reachable automaton (closeDocID 4)"
    by (rule reachable_via[OF r21, of "CHR ''C''"]) (simp add: step_simps)
  have r23: "reachable automaton (closeDocID 5)"
    by (rule reachable_via[OF r22, of "CHR ''I''"]) (simp add: step_simps)
  have r24: "reachable automaton (closeDocID 6)"
    by (rule reachable_via[OF r23, of "CHR ''D''"]) (simp add: step_simps)
  have r25: "reachable automaton (closeDocID 7)"
    by (rule reachable_via[OF r24, of "CHR ''>''"]) (simp add: step_simps)
  have r26: "reachable automaton subject"
    by (rule reachable_via[OF r25, of "CHR 0x0A"]) (simp add: step_simps)
  have r27: "reachable automaton delimited"
    by (rule reachable_via[OF r26, of "CHR 0x0A"]) (simp add: step_simps)
  have r28: "reachable automaton (free_stuff 0)"
    by (rule reachable_via[OF r27, of "CHR ''f''"]) (simp add: step_simps)
  have r29: "reachable automaton (win 0)"
    by (rule reachable_via[OF r27, of "CHR ''w''"]) (simp add: step_simps)
  have r30: "reachable automaton (closeDoc 0)"
    by (rule reachable_via[OF r27, of "CHR ''<''"]) (simp add: step_simps)
  have r31: "reachable automaton notdelimited"
    by (rule reachable_via[OF r27, of "CHR ''x''"]) (simp add: step_simps)
  have r32: "reachable automaton (free_stuff 1)"
    by (rule reachable_via[OF r28, of "CHR ''r''"]) (simp add: step_simps)
  have r33: "reachable automaton (win 1)"
    by (rule reachable_via[OF r29, of "CHR ''i''"]) (simp add: step_simps)
  have r34: "reachable automaton (closeDoc 1)"
    by (rule reachable_via[OF r30, of "CHR ''/''"]) (simp add: step_simps)
  have r35: "reachable automaton (free_stuff 2)"
    by (rule reachable_via[OF r32, of "CHR ''e''"]) (simp add: step_simps)
  have r36: "reachable automaton (win 2)"
    by (rule reachable_via[OF r33, of "CHR ''n''"]) (simp add: step_simps)
  have r37: "reachable automaton (closeDoc 2)"
    by (rule reachable_via[OF r34, of "CHR ''D''"]) (simp add: step_simps)
  have r38: "reachable automaton (free_stuff 3)"
    by (rule reachable_via[OF r35, of "CHR ''e''"]) (simp add: step_simps)
  have r39: "reachable automaton (win 3)"
    by (rule reachable_via[OF r36, of "CHR ''n''"]) (simp add: step_simps)
  have r40: "reachable automaton isSpam"
    by (rule reachable_via[OF r36, of "CHR '' ''"]) (simp add: step_simps)
  have r41: "reachable automaton (closeDoc 3)"
    by (rule reachable_via[OF r37, of "CHR ''O''"]) (simp add: step_simps)
  have r42: "reachable automaton (free_stuff 4)"
    by (rule reachable_via[OF r38, of "CHR '' ''"]) (simp add: step_simps)
  have r43: "reachable automaton (winners 0)"
    by (rule reachable_via[OF r39, of "CHR ''e''"]) (simp add: step_simps)
  have r44: "reachable automaton (winnings 0)"
    by (rule reachable_via[OF r39, of "CHR ''i''"]) (simp add: step_simps)
  have r45: "reachable automaton (closeDocSpam 0)"
    by (rule reachable_via[OF r40, of "CHR ''<''"]) (simp add: step_simps)
  have r46: "reachable automaton (closeDoc 4)"
    by (rule reachable_via[OF r41, of "CHR ''C''"]) (simp add: step_simps)
  have r47: "reachable automaton (free_access 0)"
    by (rule reachable_via[OF r42, of "CHR ''a''"]) (simp add: step_simps)
  have r48: "reachable automaton (free_software 0)"
    by (rule reachable_via[OF r42, of "CHR ''s''"]) (simp add: step_simps)
  have r49: "reachable automaton (free_trials 0)"
    by (rule reachable_via[OF r42, of "CHR ''t''"]) (simp add: step_simps)
  have r50: "reachable automaton (free_vacation 0)"
    by (rule reachable_via[OF r42, of "CHR ''v''"]) (simp add: step_simps)
  have r51: "reachable automaton (winners 1)"
    by (rule reachable_via[OF r43, of "CHR ''r''"]) (simp add: step_simps)
  have r52: "reachable automaton (winnings 1)"
    by (rule reachable_via[OF r44, of "CHR ''n''"]) (simp add: step_simps)
  have r53: "reachable automaton (closeDocSpam 1)"
    by (rule reachable_via[OF r45, of "CHR ''/''"]) (simp add: step_simps)
  have r54: "reachable automaton (free_access 1)"
    by (rule reachable_via[OF r47, of "CHR ''c''"]) (simp add: step_simps)
  have r55: "reachable automaton (free_software 1)"
    by (rule reachable_via[OF r48, of "CHR ''o''"]) (simp add: step_simps)
  have r56: "reachable automaton (free_trials 1)"
    by (rule reachable_via[OF r49, of "CHR ''r''"]) (simp add: step_simps)
  have r57: "reachable automaton (free_vacation 1)"
    by (rule reachable_via[OF r50, of "CHR ''a''"]) (simp add: step_simps)
  have r58: "reachable automaton (winners 2)"
    by (rule reachable_via[OF r51, of "CHR ''s''"]) (simp add: step_simps)
  have r59: "reachable automaton (winnings 2)"
    by (rule reachable_via[OF r52, of "CHR ''g''"]) (simp add: step_simps)
  have r60: "reachable automaton (closeDocSpam 2)"
    by (rule reachable_via[OF r53, of "CHR ''D''"]) (simp add: step_simps)
  have r61: "reachable automaton (free_access 2)"
    by (rule reachable_via[OF r54, of "CHR ''c''"]) (simp add: step_simps)
  have r62: "reachable automaton (free_software 2)"
    by (rule reachable_via[OF r55, of "CHR ''f''"]) (simp add: step_simps)
  have r63: "reachable automaton (free_trials 2)"
    by (rule reachable_via[OF r56, of "CHR ''i''"]) (simp add: step_simps)
  have r64: "reachable automaton (free_vacation 2)"
    by (rule reachable_via[OF r57, of "CHR ''c''"]) (simp add: step_simps)
  have r65: "reachable automaton (winnings 3)"
    by (rule reachable_via[OF r59, of "CHR ''s''"]) (simp add: step_simps)
  have r66: "reachable automaton (closeDocSpam 3)"
    by (rule reachable_via[OF r60, of "CHR ''O''"]) (simp add: step_simps)
  have r67: "reachable automaton (free_access 3)"
    by (rule reachable_via[OF r61, of "CHR ''e''"]) (simp add: step_simps)
  have r68: "reachable automaton (free_software 3)"
    by (rule reachable_via[OF r62, of "CHR ''t''"]) (simp add: step_simps)
  have r69: "reachable automaton (free_trials 3)"
    by (rule reachable_via[OF r63, of "CHR ''a''"]) (simp add: step_simps)
  have r70: "reachable automaton (free_vacation 3)"
    by (rule reachable_via[OF r64, of "CHR ''a''"]) (simp add: step_simps)
  have r71: "reachable automaton (closeDocSpam 4)"
    by (rule reachable_via[OF r66, of "CHR ''C''"]) (simp add: step_simps)
  have r72: "reachable automaton (free_access 4)"
    by (rule reachable_via[OF r67, of "CHR ''s''"]) (simp add: step_simps)
  have r73: "reachable automaton (free_software 4)"
    by (rule reachable_via[OF r68, of "CHR ''w''"]) (simp add: step_simps)
  have r74: "reachable automaton (free_trials 4)"
    by (rule reachable_via[OF r69, of "CHR ''l''"]) (simp add: step_simps)
  have r75: "reachable automaton (free_vacation 4)"
    by (rule reachable_via[OF r70, of "CHR ''t''"]) (simp add: step_simps)
  have r76: "reachable automaton (free_access 5)"
    by (rule reachable_via[OF r72, of "CHR ''s''"]) (simp add: step_simps)
  have r77: "reachable automaton (free_software 5)"
    by (rule reachable_via[OF r73, of "CHR ''a''"]) (simp add: step_simps)
  have r78: "reachable automaton (free_trials 5)"
    by (rule reachable_via[OF r74, of "CHR ''s''"]) (simp add: step_simps)
  have r79: "reachable automaton (free_vacation 5)"
    by (rule reachable_via[OF r75, of "CHR ''i''"]) (simp add: step_simps)
  have r80: "reachable automaton (free_software 6)"
    by (rule reachable_via[OF r77, of "CHR ''r''"]) (simp add: step_simps)
  have r81: "reachable automaton (free_vacation 6)"
    by (rule reachable_via[OF r79, of "CHR ''o''"]) (simp add: step_simps)
  have r82: "reachable automaton (free_software 7)"
    by (rule reachable_via[OF r80, of "CHR ''e''"]) (simp add: step_simps)
  have r83: "reachable automaton (free_vacation 7)"
    by (rule reachable_via[OF r81, of "CHR ''n''"]) (simp add: step_simps)
  note all = r0 r1 r2 r3 r4 r5 r6 r7 r8 r9 r10 r11 r12 r13 r14 r15 r16 r17 r18 r19 r20 r21 r22 r23 r24 r25 r26 r27 r28 r29 r30 r31 r32 r33 r34 r35 r36 r37 r38 r39 r40 r41 r42 r43 r44 r45 r46 r47 r48 r49 r50 r51 r52 r53 r54 r55 r56 r57 r58 r59 r60 r61 r62 r63 r64 r65 r66 r67 r68 r69 r70 r71 r72 r73 r74 r75 r76 r77 r78 r79 r80 r81 r82 r83
  from assms show ?thesis
    by (cases s; simp) (auto dest!: nat_less_enum simp add: all[unfolded One_nat_def])
qed

text \<open>
  Claim C2. Every state reachable from \<open>start\<close> in the automaton built by \<open>main\<close> has a
  non-empty rule list whose last rule is guarded by \<open>everything\<close>; \<open>transitionWithChar\<close> on it
  returns a non-null state for every symbol; a scan continued from it never meets the null
  pointer, and the loop ends with exit code 0.
\<close>

theorem coverage:
  assumes "reachable automaton s"
  shows "automaton s \<noteq> [] \<and> onSymbols (last (automaton s)) = everything
    \<and> fst (transitionWithChar automaton s c g) \<noteq> None
    \<and> fst (run automaton (Some s) g fl) \<noteq> None
    \<and> exit_code (main_loop automaton nm (Some s) input g out fl) = 0"
proof -
  from assms have d: "declared s" by (rule reachable_declared)
  from step_effect[OF d, of c g] have 1: "fst (transitionWithChar automaton s c g) \<noteq> None"
    by auto
  from run_declared[OF d, of g fl] have 2: "fst (run automaton (Some s) g fl) \<noteq> None"
    by auto
  from 1 2 declared_catch_all[OF d] show ?thesis
    by (simp add: exit_code_main_loop)
qed

theorem coverage_witness:
  "reachable automaton start
   \<and> automaton start \<noteq> [] \<and> onSymbols (last (automaton start)) = everything
   \<and> fst (transitionWithChar automaton start CHR ''x'' initial) \<noteq> None
   \<and> fst (run automaton (Some start) initial ''<DOC>x'') \<noteq> None
   \<and> exit_code (main ''<DOC>x'') = 0"
  using coverage [OF reachable_start, of "CHR ''x''" initial "''<DOC>x''" name "CHR 0x00" "[]"]
  by (simp add: main_def reachable_start)

section \<open>Freeze after the first match\<close>

lemma chain_step:
  assumes "in_spam_chain t"
  shows "snd (transitionWithChar automaton t c h) = h
    \<and> (case fst (transitionWithChar automaton t c h) of
          None \<Rightarrow> False
        | Some t' \<Rightarrow> in_spam_chain t' \<or> (t' = start \<and> t = closeDocSpam 4 \<and> c = CHR ''>''))"
  using assms
  by (cases t; simp) (auto dest!: nat_less_enum simp add: step_simps)

lemma chain_run:
  "in_spam_chain t \<Longrightarrow> start \<notin> set (path automaton t h fl) \<Longrightarrow>
   snd (run automaton (Some t) h fl) = h \<and> list_all in_spam_chain (path automaton t h fl)"
proof (induction fl arbitrary: t)
  case Nil
  then show ?case by simp
next
  case (Cons c fl)
  obtain n h' where st: "transitionWithChar automaton t c h = (n, h')"
    by (cases "transitionWithChar automaton t c h")
  from chain_step[OF Cons.prems(1), of c h] st
  obtain t' where n: "n = Some t'" and h': "h' = h"
    and t': "in_spam_chain t' \<or> t' = start"
    by (cases n) auto
  from Cons.prems(2) st n have ne: "t' \<noteq> start" and av: "start \<notin> set (path automaton t' h' fl)"
    by auto
  from t' ne have c': "in_spam_chain t'" by simp
  from Cons.IH[OF c'] av h' st n c' show ?case
    by simp
qed

lemma record_run:
  "declared s \<Longrightarrow> start \<notin> set (path automaton s g fl) \<Longrightarrow>
   prefix (spamMessages g) (spamMessages (snd (run automaton (Some s) g fl)))
   \<and> length (spamMessages (snd (run automaton (Some s) g fl))) \<le> length (spamMessages g) + 1"
proof (induction fl arbitrary: s g)
  case Nil
  then show ?case by simp
next
  case (Cons c fl)
  from step_effect[OF Cons.prems(1), of c g] obtain s1 g1
    where st: "transitionWithChar automaton s c g = (Some s1, g1)" and d: "declared s1"
      and eff: "spamMessages g1 = spamMessages g \<or>
                (s1 = isSpam \<and> spamMessages g1 = spamMessages g @ [currentMessageNum g])"
    by blast
  from Cons.prems(2) st have av: "start \<notin> set (path automaton s1 g1 fl)"
    by simp
  from eff show ?case
  proof
    assume "spamMessages g1 = spamMessages g"
    with Cons.IH[OF d av] st show ?thesis by simp
  next
    assume a: "s1 = isSpam \<and> spamMessages g1 = spamMessages g @ [currentMessageNum g]"
    with av chain_run[of isSpam g1 fl] have "snd (run automaton (Some s1) g1 fl) = g1"
      by simp
    with a st show ?thesis by simp
  qed
qed

text \<open>
  Claim C4. Take any stretch of a scan that begins in a reachable state and does not pass
  through \<open>start\<close>, so that it lies within one record: the queue of flagged identifiers
  grows by at most one element. A single step either leaves the queue unchanged or appends the
  current identifier and lands in \<open>isSpam\<close>. From \<open>isSpam\<close> and the \<open>closeDocSpam\<close> chain every
  step leaves the globals unchanged and stays in that chain, except the \<open>>\<close> taken in
  \<open>closeDocSpam[4]\<close>, which returns to \<open>start\<close>.
\<close>

theorem one_append_per_record:
  assumes "reachable automaton s" and "start \<notin> set (path automaton s g fl)"
    and "in_spam_chain t" and "start \<notin> set (path automaton t h fl')"
  shows "prefix (spamMessages g) (spamMessages (snd (run automaton (Some s) g fl)))
    \<and> length (spamMessages (snd (run automaton (Some s) g fl))) \<le> length (spamMessages g) + 1
    \<and> (spamMessages (snd (transitionWithChar automaton s c g)) = spamMessages g
        \<or> (fst (transitionWithChar automaton s c g) = Some isSpam
           \<and> spamMessages (snd (transitionWithChar automaton s c g)) =
               spamMessages g @ [currentMessageNum g]))
    \<and> snd (transitionWithChar automaton t c h) = h
    \<and> (case fst (transitionWithChar automaton t c h) of
          None \<Rightarrow> False
        | Some t' \<Rightarrow> in_spam_chain t' \<or> (t' = start \<and> t = closeDocSpam 4 \<and> c = CHR ''>''))
    \<and> snd (run automaton (Some t) h fl') = h
    \<and> list_all in_spam_chain (path automaton t h fl')"
proof -
  from assms(1) have d: "declared s" by (rule reachable_declared)
  from step_effect[OF d, of c g]
  have 1: "spamMessages (snd (transitionWithChar automaton s c g)) = spamMessages g
        \<or> (fst (transitionWithChar automaton s c g) = Some isSpam
           \<and> spamMessages (snd (transitionWithChar automaton s c g)) =
               spamMessages g @ [currentMessageNum g])"
    by auto
  from record_run[OF d assms(2)] 1 chain_step[OF assms(3), of c h] chain_run[OF assms(3,4)]
  show ?thesis by simp
qed

theorem one_append_per_record_witness:
  "reachable automaton start
   \<and> start \<notin> set (path automaton start initial
        (''<DOC><DOCID>msg42</DOCID>'' @ endl @ ''Subj'' @ endl @ endl @
         ''a win and free software here'' @ endl @ ''</DOC''))
   \<and> in_spam_chain isSpam
   \<and> start \<notin> set (path automaton isSpam \<lparr>spamMessages = [42], currentMessageNum = 42\<rparr>
        ''and free software win </DOC'')
   \<and> spamMessages (snd (run automaton (Some start) initial
        (''<DOC><DOCID>msg42</DOCID>'' @ endl @ ''Subj'' @ endl @ endl @
         ''a win and free software here'' @ endl @ ''</DOC''))) = [42]
   \<and> snd (run automaton (Some isSpam) \<lparr>spamMessages = [42], currentMessageNum = 42\<rparr>
        ''and free software win </DOC'') = \<lparr>spamMessages = [42], currentMessageNum = 42\<rparr>
   \<and> list_all in_spam_chain (path automaton isSpam \<lparr>spamMessages = [42], currentMessageNum = 42\<rparr>
        ''and free software win </DOC'')"
  using one_append_per_record
    [of start initial
        "''<DOC><DOCID>msg42</DOCID>'' @ endl @ ''Subj'' @ endl @ endl @
         ''a win and free software here'' @ endl @ ''</DOC''"
        isSpam "\<lparr>spamMessages = [42], currentMessageNum = 42\<rparr>"
        "''and free software win </DOC''" "CHR '' ''"]
  by (simp add: reachable_start input_simps step_simps)

section \<open>From the identifier marker to the record body\<close>

lemma skip_line:
  "CHR 0x0A \<notin> set l \<Longrightarrow> run automaton (Some (closeDocID 7)) g l = (Some (closeDocID 7), g)"
  by (induction l) (auto simp add: step_simps)

lemma skip_blank:
  "set ws \<subseteq> {CHR '' '', CHR 0x09, CHR 0x0D} \<Longrightarrow>
   run automaton (Some subject) g ws = (Some subject, g)"
  by (induction ws) (auto simp add: step_simps)

lemma leave_subject:
  "CHR 0x0A \<notin> set l \<Longrightarrow> \<exists>c\<in>set l. \<not> whitespace c a \<Longrightarrow>
   run automaton (Some subject) g l = (Some (closeDocID 7), g)"
proof (induction l)
  case Nil
  then show ?case by simp
next
  case (Cons c l)
  show ?case
  proof (cases "whitespace c a")
    case True
    with Cons.prems have "\<exists>c\<in>set l. \<not> whitespace c a" by (auto simp: whitespace_def)
    with Cons.IH Cons.prems(1) have "run automaton (Some subject) g l = (Some (closeDocID 7), g)"
      by simp
    with True Cons.prems(1) show ?thesis
      by (auto simp add: step_simps)
  next
    case False
    with Cons.prems(1) skip_line[of l g] show ?thesis
      by (auto simp add: step_simps)
  qed
qed

text \<open>
  Claim C7, as amended. After the \<open>>\<close> that completes \<open></DOCID>\<close> the scanner skips the
  rest of that line; at each following newline it is in \<open>subject\<close>. A line of spaces, tabs and
  carriage returns only (possibly empty) then leads, at its newline, into the record body in
  the within-delimiter state, where a phrase at the start of the next line is matched. A line
  with any other character is skipped up to its newline like the first, and the scanner is in
  \<open>subject\<close> again.
\<close>

theorem body_starts_after_blank_line:
  assumes "CHR 0x0A \<notin> set l1"
    and "set ws \<subseteq> {CHR '' '', CHR 0x09, CHR 0x0D}"
    and "CHR 0x0A \<notin> set l2" and "\<exists>c\<in>set l2. \<not> whitespace c a"
  shows "run automaton (Some (closeDocID 7)) g (l1 @ [CHR 0x0A]) = (Some subject, g)
    \<and> run automaton (Some (closeDocID 7)) g (l1 @ [CHR 0x0A] @ ws @ [CHR 0x0A]) = (Some delimited, g)
    \<and> run automaton (Some (closeDocID 7)) g (l1 @ [CHR 0x0A] @ ws @ [CHR 0x0A] @ ''win '') =
        (Some isSpam, g\<lparr>spamMessages := spamMessages g @ [currentMessageNum g]\<rparr>)
    \<and> run automaton (Some (closeDocID 7)) g (l1 @ [CHR 0x0A] @ l2 @ [CHR 0x0A]) = (Some subject, g)"
proof -
  have a: "run automaton (Some (closeDocID 7)) g l1 = (Some (closeDocID 7), g)"
    by (rule skip_line[OF assms(1)])
  have b: "run automaton (Some subject) g ws = (Some subject, g)"
    by (rule skip_blank[OF assms(2)])
  have c: "run automaton (Some subject) g l2 = (Some (closeDocID 7), g)"
    by (rule leave_subject[OF assms(3,4)])
  show ?thesis
    by (simp add: run_append a b c step_simps)
qed

theorem body_starts_after_blank_line_witness:
  "CHR 0x0A \<notin> set ''Subj'' \<and> set '' '' \<subseteq> {CHR '' '', CHR 0x09, CHR 0x0D}
   \<and> CHR 0x0A \<notin> set ''You win today'' \<and> (\<exists>c\<in>set ''You win today''. \<not> whitespace c 0)
   \<and> run automaton (Some (closeDocID 7)) initial (''Subj'' @ [CHR 0x0A] @ '' '' @ [CHR 0x0A] @ ''win '') =
        (Some isSpam, \<lparr>spamMessages = [0], currentMessageNum = 0\<rparr>)
   \<and> run automaton (Some (closeDocID 7)) initial (''Subj'' @ [CHR 0x0A] @ ''You win today'' @ [CHR 0x0A]) =
        (Some subject, initial)"
  using body_starts_after_blank_line [of "''Subj''" "'' ''" "''You win today''" 0 initial]
  by (simp add: whitespace_def initial_def)

text \<open>
  Claim C7 as stated fails: after one subject line and its newline the scanner is in
  \<open>subject\<close>, not in the within-delimiter state, and the line that follows is skipped, not
  scanned. A record whose body follows the subject line without a blank line in between is
  not flagged, and its closing marker is not recognised.
\<close>

theorem line_after_subject_not_scanned:
  "run automaton (Some start) initial ''<DOC><DOCID>msg42</DOCID>'' = (Some (closeDocID 7), \<lparr>spamMessages = [], currentMessageNum = 42\<rparr>)
   \<and> fst (run automaton (Some (closeDocID 7)) initial (''Subj'' @ endl)) = Some subject
   \<and> fst (run automaton (Some (closeDocID 7)) initial (''Subj'' @ endl)) \<noteq> Some delimited
   \<and> run automaton (Some (closeDocID 7)) initial (''Subj'' @ endl @ ''You win today'' @ endl) =
        (Some subject, initial)
   \<and> run automaton (Some start) initial
        (''<DOC><DOCID>msg42</DOCID>Subj'' @ endl @ ''You win today'' @ endl @ ''</DOC>'') =
        (Some (closeDocID 7), \<lparr>spamMessages = [], currentMessageNum = 42\<rparr>)
   \<and> run automaton (Some start) initial
        (''<DOC><DOCID>msg42</DOCID>'' @ endl @ ''Subj'' @ endl @ ''You win today'' @ endl @ ''</DOC>'') =
        (Some (closeDocID 7), \<lparr>spamMessages = [], currentMessageNum = 42\<rparr>)"
  by (simp add: input_simps step_simps)

section \<open>The identifier accumulator stays below 100\<close>

text \<open>
  \<open>newMsg\<close> clears the identifier on the \<open>>\<close> of \<open><DOC>\<close>, and only the two digit
  transitions change it afterwards, so in a scan from \<open>start\<close> it is always between 0 and 99:
  the arithmetic of \<open>handleMIDdig\<close> never overflows.
\<close>

lemma identifier_step_bounded:
  assumes "declared s" and "0 \<le> currentMessageNum g" and "currentMessageNum g \<le> id_limit s"
  shows "\<exists>s' g'. transitionWithChar automaton s c g = (Some s', g') \<and> declared s'
           \<and> 0 \<le> currentMessageNum g' \<and> currentMessageNum g' \<le> id_limit s'"
  using assms
  by (cases s; simp)
     (auto dest!: nat_less_enum simp add: step_simps handleMIDdig_def char_val_def)

lemma identifier_bounded:
  "declared s \<Longrightarrow> 0 \<le> currentMessageNum g \<Longrightarrow> currentMessageNum g \<le> id_limit s \<Longrightarrow>
   0 \<le> currentMessageNum (snd (run automaton (Some s) g fl))
   \<and> currentMessageNum (snd (run automaton (Some s) g fl)) \<le> 99"
proof (induction fl arbitrary: s g)
  case Nil
  have "id_limit s \<le> 99" by (cases s) simp_all
  with Nil show ?case by simp
next
  case (Cons c fl)
  from identifier_step_bounded[OF Cons.prems, of c] obtain s1 g1
    where st: "transitionWithChar automaton s c g = (Some s1, g1)" and d: "declared s1"
      and b: "0 \<le> currentMessageNum g1" "currentMessageNum g1 \<le> id_limit s1"
    by blast
  from Cons.IH[OF d b] st show ?case by simp
qed

lemma identifier_bounded_main:
  "0 \<le> currentMessageNum (snd (run automaton (Some start) initial fl))
   \<and> currentMessageNum (snd (run automaton (Some start) initial fl)) \<le> 99"
  by (rule identifier_bounded) (simp_all add: initial_def)

end
